theory Spec2Isabelle
  imports Main "HOL-Library.Word" "HOL-Library.Sublist"
begin

section \<open>Strings\<close>

text \<open>
  Go strings are byte sequences; they are modelled as \<^typ>\<open>string\<close>.
  \<^verbatim>\<open>strings.ToLower\<close> is modelled on ASCII text, where it maps the bytes
  \<^verbatim>\<open>'A'..'Z'\<close> to \<^verbatim>\<open>'a'..'z'\<close> and keeps every other byte (DNS names and
  textual IP addresses are ASCII; Go's Unicode case mapping of bytes above 127 is outside
  the model, such bytes are kept).
\<close>

definition toLowerChar :: "char \<Rightarrow> char" where
  "toLowerChar c =
     (if 65 \<le> (of_char c :: nat) \<and> (of_char c :: nat) \<le> 90
      then char_of ((of_char c :: nat) + 32) else c)"

definition ToLower :: "string \<Rightarrow> string" where
  "ToLower s = map toLowerChar s"

text \<open>
  \<^verbatim>\<open>func removeLastDot(name string) string\<close>: one trailing dot is removed, if there is one.
\<close>

definition removeLastDot :: "string \<Rightarrow> string" where
  "removeLastDot name =
     (let sz = length name in
      if sz > 0 \<and> name ! (sz - 1) = CHR ''.'' then take (sz - 1) name else name)"

text \<open>
  The specification's \<^verbatim>\<open>canonicalize\<close> (lowercase, then strip exactly one trailing
  dot), written with the two source functions that \<^verbatim>\<open>manageData\<close> and the record
  handlers apply in that order.
\<close>

definition canonicalize :: "string \<Rightarrow> string" where
  "canonicalize x = removeLastDot (ToLower x)"

text \<open>
  \<^verbatim>\<open>strings.Split(s, sep)\<close> for a one-byte separator: the fields between the
  separators, in order; the result is never empty (\<^verbatim>\<open>Split("", ",")\<close> is
  \<^verbatim>\<open>[""]\<close>). \<open>splitFrom\<close> scans the string and keeps the bytes of the current
  field, last byte first.
\<close>

fun splitFrom :: "string \<Rightarrow> char \<Rightarrow> string \<Rightarrow> string list" where
  "splitFrom [] sep cur = [rev cur]"
| "splitFrom (c # cs) sep cur =
     (if c = sep then rev cur # splitFrom cs sep [] else splitFrom cs sep (c # cur))"

definition Split :: "string \<Rightarrow> char \<Rightarrow> string list" where
  "Split s sep = splitFrom s sep []"

section \<open>Data model\<close>

text \<open>
  \<^verbatim>\<open>core.DNSAnswer\<close> and \<^verbatim>\<open>core.AmassRequest\<close>, with the fields the Data
  Manager reads and writes. \<^verbatim>\<open>Type\<close> is a Go integer that the dispatch converts
  with \<^verbatim>\<open>uint16(r.Type)\<close>.
\<close>

record DNSAnswer =
  Name :: string
  Type :: int
  TTL :: int
  Data :: string

record AmassRequest =
  Name :: string
  Domain :: string
  Address :: string
  Records :: "DNSAnswer list"
  Tag :: string
  Source :: string

text \<open>The output record that \<^verbatim>\<open>Graph.GetNewOutput\<close> returns; only \<^verbatim>\<open>Name\<close> is read here.\<close>

record AmassOutput =
  Name :: string
  Domain :: string
  Addresses :: "string list"
  Tag :: string
  Source :: string

text \<open>The calls of the \<^verbatim>\<open>handlers.DataHandler\<close> interface, with their arguments.\<close>

datatype handler_call =
    InsertDomain string string string
  | InsertCNAME string string string string string string
  | InsertA string string string string string
  | InsertAAAA string string string string string
  | InsertPTR string string string string string
  | InsertSRV string string string string string string
  | InsertNS string string string string string string
  | InsertMX string string string string string string
  | InsertInfrastructure string int string string

text \<open>The events of the bus that the Data Manager and the source workers publish.\<close>

datatype event =
    NEWNAME AmassRequest
  | NEWADDR AmassRequest
  | OUTPUT AmassOutput

text \<open>
  The collaborators whose code is not part of the Data Manager are parameters of the model:
  the configuration's scope functions, the package function \<^verbatim>\<open>SubdomainToDomain\<close>,
  the lookup \<^verbatim>\<open>IPRequest\<close> (\<open>None\<close> is its error return), the matches
  \<^verbatim>\<open>FindAllString(data, -1)\<close> of the two regular expressions, and the tag constant
  \<^verbatim>\<open>core.DNS\<close>. The declaration of \<^verbatim>\<open>AmassRequest.Records\<close> is a parameter as
  well: \<open>RecordsArePointers\<close> says whether the slice holds pointers to records (then the
  range variable \<^verbatim>\<open>r\<close> of \<^verbatim>\<open>manageData\<close> aliases the element, and the
  assignments to \<^verbatim>\<open>r.Name\<close> and \<^verbatim>\<open>r.Data\<close> change the request) or record
  values (then \<^verbatim>\<open>r\<close> is a copy and the request keeps its records as they were).
\<close>

record Env =
  IsDomainInScope :: "string \<Rightarrow> bool"
  WhichDomain :: "string \<Rightarrow> string"
  SubdomainToDomain :: "string \<Rightarrow> string"
  IPRequest :: "string \<Rightarrow> (int \<times> string \<times> string) option"
  IPv4RE :: "string \<Rightarrow> string list"
  AnySubdomainRegex :: "string \<Rightarrow> string list"
  DNS :: string
  RecordsArePointers :: bool

text \<open>
  The state that the code changes. Every service embeds \<^verbatim>\<open>core.BaseAmassService\<close>,
  through which it reaches the enumeration: the enumeration's filter behind
  \<^verbatim>\<open>DupDataSourceName\<close>, the events published on the bus (oldest first), the activity
  flag that \<^verbatim>\<open>SetActive\<close> raises and the name that \<^verbatim>\<open>String()\<close> returns.
  The Data Manager adds its two filters and the calls made on every handler of
  \<^verbatim>\<open>dms.Handlers\<close> (oldest first).
\<close>

record BaseAmassService =
  dataSourceNames :: "(string \<times> string) set"
  bus :: "event list"
  active :: bool
  String :: string

record DataManagerService = BaseAmassService +
  filter_dms :: "string set"
  domainFilter :: "string set"
  handled :: "handler_call list"

record PTRArchive = BaseAmassService +
  SourceType :: string

text \<open>\<^verbatim>\<open>NewDataManagerService\<close> in a fresh enumeration: empty filters, nothing published.\<close>

definition NewDataManagerService :: DataManagerService where
  "NewDataManagerService =
     \<lparr>dataSourceNames = {}, bus = [], active = False, String = ''Data Manager'',
      filter_dms = {}, domainFilter = {}, handled = []\<rparr>"

section \<open>Filters and the bus\<close>

text \<open>
  Modelled from the spec: \<^verbatim>\<open>utils.StringFilter.Duplicate\<close> is missing from the sources.
  The specification gives the filters set semantics with an atomic test-and-add that
  returns the prior membership.
\<close>

definition Duplicate :: "'a set \<Rightarrow> 'a \<Rightarrow> bool \<times> 'a set" where
  "Duplicate sf s = (s \<in> sf, insert s sf)"

text \<open>
  Modelled from the spec: \<^verbatim>\<open>Enumeration.DupDataSourceName\<close> is missing from the
  sources. The specification checks the tuple (name, source) against a set, with the same
  test-and-add.
\<close>

definition DupDataSourceName ::
  "'a BaseAmassService_scheme \<Rightarrow> AmassRequest \<Rightarrow> bool \<times> 'a BaseAmassService_scheme" where
  "DupDataSourceName st req =
     (let (dup, sf) = Duplicate (dataSourceNames st)
                        (AmassRequest.Name req, AmassRequest.Source req)
      in (dup, st\<lparr>dataSourceNames := sf\<rparr>))"

definition Publish :: "'a BaseAmassService_scheme \<Rightarrow> event \<Rightarrow> 'a BaseAmassService_scheme" where
  "Publish st e = st\<lparr>bus := bus st @ [e]\<rparr>"

definition SetActive :: "'a BaseAmassService_scheme \<Rightarrow> 'a BaseAmassService_scheme" where
  "SetActive st = st\<lparr>active := True\<rparr>"

text \<open>\<^verbatim>\<open>for _, handler := range dms.Handlers { handler.Insert... }\<close>; a handler's error is only logged.\<close>

definition forHandlers :: "DataManagerService \<Rightarrow> handler_call \<Rightarrow> DataManagerService" where
  "forHandlers st c = st\<lparr>handled := handled st @ [c]\<rparr>"

section \<open>The Data Manager\<close>

definition sendNewName :: "DataManagerService \<Rightarrow> AmassRequest \<Rightarrow> DataManagerService" where
  "sendNewName st req =
     (let (dup, st) = DupDataSourceName st req in
      if dup then st else Publish st (NEWNAME req))"

definition checkDomain :: "DataManagerService \<Rightarrow> string \<Rightarrow> bool \<times> DataManagerService" where
  "checkDomain st domain =
     (let (dup, sf) = Duplicate (domainFilter st) domain in (dup, st\<lparr>domainFilter := sf\<rparr>))"

definition insertDomain :: "Env \<Rightarrow> DataManagerService \<Rightarrow> string \<Rightarrow> DataManagerService" where
  "insertDomain env st domain =
     (let domain = ToLower domain in
      if domain = [] then st
      else let (dup, st) = checkDomain st domain in
      if dup then st
      else let st = forHandlers st (InsertDomain domain (DNS env) ''Forward DNS'') in
      sendNewName st
        \<lparr>AmassRequest.Name = domain, Domain = domain, Address = [], Records = [],
         Tag = DNS env, Source = ''Forward DNS''\<rparr>)"

definition insertCNAME :: "Env \<Rightarrow> DataManagerService \<Rightarrow> AmassRequest \<Rightarrow> nat \<Rightarrow> DataManagerService" where
  "insertCNAME env st req recidx =
     (let target = removeLastDot (DNSAnswer.Data (Records req ! recidx)) in
      if target = [] then st
      else let domain = SubdomainToDomain env target in
      if domain = [] then st
      else let st = insertDomain env st domain;
               st = forHandlers st
                      (InsertCNAME (AmassRequest.Name req) (AmassRequest.Domain req) target domain
                         (AmassRequest.Tag req) (AmassRequest.Source req)) in
      sendNewName st
        \<lparr>AmassRequest.Name = target, Domain = domain, Address = [], Records = [],
         Tag = DNS env, Source = ''Forward DNS''\<rparr>)"

definition insertInfrastructure :: "Env \<Rightarrow> DataManagerService \<Rightarrow> string \<Rightarrow> DataManagerService" where
  "insertInfrastructure env st addr =
     (case IPRequest env addr of
        None \<Rightarrow> st
      | Some (asn, cidr, desc) \<Rightarrow> forHandlers st (InsertInfrastructure addr asn cidr desc))"

definition insertA :: "Env \<Rightarrow> DataManagerService \<Rightarrow> AmassRequest \<Rightarrow> nat \<Rightarrow> DataManagerService" where
  "insertA env st req recidx =
     (let addr = DNSAnswer.Data (Records req ! recidx) in
      if addr = [] then st
      else let st = forHandlers st
                      (InsertA (AmassRequest.Name req) (AmassRequest.Domain req) addr
                         (AmassRequest.Tag req) (AmassRequest.Source req));
               st = insertInfrastructure env st addr in
      if IsDomainInScope env (AmassRequest.Name req)
      then Publish st
             (NEWADDR \<lparr>AmassRequest.Name = [], Domain = AmassRequest.Domain req, Address = addr,
                       Records = [], Tag = AmassRequest.Tag req,
                       Source = AmassRequest.Source req\<rparr>)
      else st)"

definition insertAAAA :: "Env \<Rightarrow> DataManagerService \<Rightarrow> AmassRequest \<Rightarrow> nat \<Rightarrow> DataManagerService" where
  "insertAAAA env st req recidx =
     (let addr = DNSAnswer.Data (Records req ! recidx) in
      if addr = [] then st
      else let st = forHandlers st
                      (InsertAAAA (AmassRequest.Name req) (AmassRequest.Domain req) addr
                         (AmassRequest.Tag req) (AmassRequest.Source req));
               st = insertInfrastructure env st addr in
      if IsDomainInScope env (AmassRequest.Name req)
      then Publish st
             (NEWADDR \<lparr>AmassRequest.Name = [], Domain = AmassRequest.Domain req, Address = addr,
                       Records = [], Tag = AmassRequest.Tag req,
                       Source = AmassRequest.Source req\<rparr>)
      else st)"

definition insertPTR :: "Env \<Rightarrow> DataManagerService \<Rightarrow> AmassRequest \<Rightarrow> nat \<Rightarrow> DataManagerService" where
  "insertPTR env st req recidx =
     (let target = removeLastDot (DNSAnswer.Data (Records req ! recidx)) in
      if target = [] then st
      else let domain = WhichDomain env target in
      if domain = [] then st
      else let st = insertDomain env st domain;
               st = forHandlers st
                      (InsertPTR (AmassRequest.Name req) domain target
                         (AmassRequest.Tag req) (AmassRequest.Source req)) in
      sendNewName st
        \<lparr>AmassRequest.Name = target, Domain = domain, Address = [], Records = [],
         Tag = DNS env, Source = AmassRequest.Source req\<rparr>)"

definition insertSRV :: "Env \<Rightarrow> DataManagerService \<Rightarrow> AmassRequest \<Rightarrow> nat \<Rightarrow> DataManagerService" where
  "insertSRV env st req recidx =
     (let service = removeLastDot (DNSAnswer.Name (Records req ! recidx));
          target = removeLastDot (DNSAnswer.Data (Records req ! recidx)) in
      if target = [] \<or> service = [] then st
      else forHandlers st
             (InsertSRV (AmassRequest.Name req) (AmassRequest.Domain req) service target
                (AmassRequest.Tag req) (AmassRequest.Source req)))"

definition insertNS :: "Env \<Rightarrow> DataManagerService \<Rightarrow> AmassRequest \<Rightarrow> nat \<Rightarrow> DataManagerService" where
  "insertNS env st req recidx =
     (let pieces = Split (DNSAnswer.Data (Records req ! recidx)) (CHR '','');
          target = pieces ! (length pieces - 1) in
      if target = [] then st
      else let domain = SubdomainToDomain env target in
      if domain = [] then st
      else let st = insertDomain env st domain;
               st = forHandlers st
                      (InsertNS (AmassRequest.Name req) (AmassRequest.Domain req) target domain
                         (AmassRequest.Tag req) (AmassRequest.Source req)) in
      if target \<noteq> domain
      then sendNewName st
             \<lparr>AmassRequest.Name = target, Domain = domain, Address = [], Records = [],
              Tag = DNS env, Source = ''Forward DNS''\<rparr>
      else st)"

definition insertMX :: "Env \<Rightarrow> DataManagerService \<Rightarrow> AmassRequest \<Rightarrow> nat \<Rightarrow> DataManagerService" where
  "insertMX env st req recidx =
     (let target = removeLastDot (DNSAnswer.Data (Records req ! recidx)) in
      if target = [] then st
      else let domain = SubdomainToDomain env target in
      if domain = [] then st
      else let st = insertDomain env st domain;
               st = forHandlers st
                      (InsertMX (AmassRequest.Name req) (AmassRequest.Domain req) target domain
                         (AmassRequest.Tag req) (AmassRequest.Source req)) in
      if target \<noteq> domain
      then sendNewName st
             \<lparr>AmassRequest.Name = target, Domain = domain, Address = [], Records = [],
              Tag = DNS env, Source = ''Forward DNS''\<rparr>
      else st)"

text \<open>The two loops of \<^verbatim>\<open>findNamesAndAddresses\<close>, over the matches of each expression.\<close>

definition publishIP :: "Env \<Rightarrow> DataManagerService \<Rightarrow> string \<Rightarrow> DataManagerService" where
  "publishIP env st ip =
     Publish st
       (NEWADDR \<lparr>AmassRequest.Name = [], Domain = [], Address = ip, Records = [],
                 Tag = DNS env, Source = ''Forward DNS''\<rparr>)"

definition publishSub :: "Env \<Rightarrow> DataManagerService \<Rightarrow> string \<Rightarrow> DataManagerService" where
  "publishSub env st name =
     (if \<not> IsDomainInScope env name then st
      else let domain = WhichDomain env name in
      if domain = [] then st
      else sendNewName st
             \<lparr>AmassRequest.Name = name, Domain = domain, Address = [], Records = [],
              Tag = DNS env, Source = ''Forward DNS''\<rparr>)"

definition findNamesAndAddresses :: "Env \<Rightarrow> DataManagerService \<Rightarrow> string \<Rightarrow> DataManagerService" where
  "findNamesAndAddresses env st data =
     (let st = foldl (publishIP env) st (IPv4RE env data) in
      foldl (publishSub env) st (AnySubdomainRegex env data))"

definition insertTXT :: "Env \<Rightarrow> DataManagerService \<Rightarrow> AmassRequest \<Rightarrow> nat \<Rightarrow> DataManagerService" where
  "insertTXT env st req recidx =
     (if \<not> IsDomainInScope env (AmassRequest.Name req) then st
      else findNamesAndAddresses env st (DNSAnswer.Data (Records req ! recidx)))"

definition insertSPF :: "Env \<Rightarrow> DataManagerService \<Rightarrow> AmassRequest \<Rightarrow> nat \<Rightarrow> DataManagerService" where
  "insertSPF env st req recidx =
     (if \<not> IsDomainInScope env (AmassRequest.Name req) then st
      else findNamesAndAddresses env st (DNSAnswer.Data (Records req ! recidx)))"

text \<open>The record type constants of the DNS library, which are the IANA numbers.\<close>

definition TypeA :: "16 word" where "TypeA = 1"
definition TypeNS :: "16 word" where "TypeNS = 2"
definition TypeCNAME :: "16 word" where "TypeCNAME = 5"
definition TypePTR :: "16 word" where "TypePTR = 12"
definition TypeMX :: "16 word" where "TypeMX = 15"
definition TypeTXT :: "16 word" where "TypeTXT = 16"
definition TypeAAAA :: "16 word" where "TypeAAAA = 28"
definition TypeSRV :: "16 word" where "TypeSRV = 33"
definition TypeSPF :: "16 word" where "TypeSPF = 99"

text \<open>
  The \<^verbatim>\<open>switch uint16(r.Type)\<close> of \<^verbatim>\<open>manageData\<close>; the conversion keeps the low
  16 bits of the integer. A type with no case is skipped.
\<close>

definition dispatch :: "Env \<Rightarrow> DataManagerService \<Rightarrow> AmassRequest \<Rightarrow> nat \<Rightarrow> 16 word \<Rightarrow> DataManagerService" where
  "dispatch env st req i t =
     (if t = TypeA then insertA env st req i
      else if t = TypeAAAA then insertAAAA env st req i
      else if t = TypeCNAME then insertCNAME env st req i
      else if t = TypePTR then insertPTR env st req i
      else if t = TypeSRV then insertSRV env st req i
      else if t = TypeNS then insertNS env st req i
      else if t = TypeMX then insertMX env st req i
      else if t = TypeTXT then insertTXT env st req i
      else if t = TypeSPF then insertSPF env st req i
      else st)"

text \<open>
  One iteration of \<^verbatim>\<open>for i, r := range req.Records\<close>: the range variable \<^verbatim>\<open>r\<close>
  receives the element, its \<^verbatim>\<open>Name\<close> and \<^verbatim>\<open>Data\<close> are lowercased, and the
  handler is called with the request and the index. The handler reads
  \<^verbatim>\<open>req.Records[i]\<close>, which holds the lowercased fields only when \<^verbatim>\<open>r\<close> aliases
  the element.
\<close>

definition rangeBody ::
  "Env \<Rightarrow> DataManagerService \<times> AmassRequest \<Rightarrow> nat \<Rightarrow> DataManagerService \<times> AmassRequest" where
  "rangeBody env sr i =
     (let (st, req) = sr;
          r = Records req ! i;
          r = r\<lparr>DNSAnswer.Name := ToLower (DNSAnswer.Name r)\<rparr>;
          r = r\<lparr>DNSAnswer.Data := ToLower (DNSAnswer.Data r)\<rparr>;
          req = (if RecordsArePointers env then req\<lparr>Records := (Records req)[i := r]\<rparr> else req)
      in (dispatch env st req i (word_of_int (DNSAnswer.Type r)), req))"

text \<open>
  \<^verbatim>\<open>manageData\<close>. The request is reached through a pointer, so the function returns
  the request as it leaves it, next to the new state.
\<close>

definition manageData ::
  "Env \<Rightarrow> DataManagerService \<Rightarrow> AmassRequest \<Rightarrow> DataManagerService \<times> AmassRequest" where
  "manageData env st req =
     (let req = req\<lparr>AmassRequest.Name := ToLower (AmassRequest.Name req)\<rparr>;
          req = req\<lparr>AmassRequest.Domain := ToLower (AmassRequest.Domain req)\<rparr>;
          st = SetActive st;
          st = insertDomain env st (AmassRequest.Domain req)
      in foldl (rangeBody env) (st, req) [0..<length (Records req)])"

text \<open>
  \<^verbatim>\<open>sendOutput\<close>, with the result \<open>out\<close> of \<^verbatim>\<open>Graph.GetNewOutput()\<close> as its
  argument. \<^verbatim>\<open>Duplicate\<close> is called for every name, before the scope test.
\<close>

definition outputOne :: "Env \<Rightarrow> DataManagerService \<Rightarrow> AmassOutput \<Rightarrow> DataManagerService" where
  "outputOne env st o' =
     (let (dup, sf) = Duplicate (filter_dms st) (AmassOutput.Name o');
          st = st\<lparr>filter_dms := sf\<rparr> in
      if \<not> dup \<and> IsDomainInScope env (AmassOutput.Name o') then Publish st (OUTPUT o') else st)"

definition sendOutput :: "Env \<Rightarrow> DataManagerService \<Rightarrow> AmassOutput list \<Rightarrow> DataManagerService" where
  "sendOutput env st out =
     (if length out > 0 then foldl (outputOne env) (SetActive st) out else st)"

text \<open>
  \<^verbatim>\<open>processRequests\<close> takes what arrives: a tick of the output timer, with what the
  graph returns at that moment, or a request from the \<^verbatim>\<open>CHECKED\<close> topic.
\<close>

datatype arrival = Tick "AmassOutput list" | Checked AmassRequest

fun processOne :: "Env \<Rightarrow> DataManagerService \<Rightarrow> arrival \<Rightarrow> DataManagerService" where
  "processOne env st (Tick out) = sendOutput env st out"
| "processOne env st (Checked req) = fst (manageData env st req)"

definition processRequests :: "Env \<Rightarrow> DataManagerService \<Rightarrow> arrival list \<Rightarrow> DataManagerService" where
  "processRequests env st arrivals = foldl (processOne env) st arrivals"

section \<open>A source worker\<close>

text \<open>
  \<^verbatim>\<open>PTRArchive.executeQuery\<close>. The page request (\<open>None\<close> is its error), the matches
  of the domain's regular expression in the page and \<^verbatim>\<open>cleanName\<close> are parameters.
\<close>

record SourceEnv =
  RequestWebPage :: "string \<Rightarrow> string option"
  DomainRegex :: "string \<Rightarrow> string \<Rightarrow> string list"
  cleanName :: "string \<Rightarrow> string"

definition getURL :: "string \<Rightarrow> string" where
  "getURL domain = ''http://ptrarchive.com/tools/search3.htm?label='' @ domain @ ''&date=ALL''"

definition queryOne :: "SourceEnv \<Rightarrow> string \<Rightarrow> PTRArchive \<Rightarrow> string \<Rightarrow> PTRArchive" where
  "queryOne senv domain p sd =
     (let req = \<lparr>AmassRequest.Name = cleanName senv sd, Domain = domain, Address = [],
                 Records = [], Tag = SourceType p, Source = String p\<rparr>;
          (dup, p) = DupDataSourceName p req in
      if dup then p else Publish p (NEWNAME req))"

definition executeQuery :: "SourceEnv \<Rightarrow> PTRArchive \<Rightarrow> string \<Rightarrow> PTRArchive" where
  "executeQuery senv p domain =
     (case RequestWebPage senv (getURL domain) of
        None \<Rightarrow> p
      | Some page \<Rightarrow> foldl (queryOne senv domain) (SetActive p) (DomainRegex senv domain page))"

section \<open>Scope functions for the examples\<close>

text \<open>
  Modelled from the spec: the configuration's scope functions and
  \<^verbatim>\<open>SubdomainToDomain\<close> are missing from the sources. The specification's
  \<^verbatim>\<open>subdomain_to_domain\<close> returns the longest suffix of the name that is a
  registered root, or the empty string; \<^verbatim>\<open>is_in_scope\<close> holds iff that is not
  empty, and \<^verbatim>\<open>which_domain\<close> is the same function. The theorems below are about
  every environment; these functions instantiate the parameters in the examples.
\<close>

definition subdomain_to_domain :: "string list \<Rightarrow> string \<Rightarrow> string" where
  "subdomain_to_domain roots name =
     fold (\<lambda>root best. if suffix root name \<and> length best < length root then root else best)
       roots []"

definition exampleRoots :: "string list" where
  "exampleRoots = [''example.com'', ''x.com'']"

definition exampleEnv :: "bool \<Rightarrow> Env" where
  "exampleEnv ptr =
     \<lparr>IsDomainInScope = (\<lambda>name. subdomain_to_domain exampleRoots name \<noteq> []),
      WhichDomain = subdomain_to_domain exampleRoots,
      SubdomainToDomain = subdomain_to_domain exampleRoots,
      IPRequest = (\<lambda>addr. None),
      IPv4RE = (\<lambda>data. []),
      AnySubdomainRegex = (\<lambda>data. []),
      DNS = ''dns'',
      RecordsArePointers = ptr\<rparr>"

section \<open>Lowercasing and the trailing dot\<close>

lemmas lower_eval = ToLower_def toLowerChar_def char_of_def bit_Suc_0_iff

lemma toLowerChar_idem: "toLowerChar (toLowerChar c) = toLowerChar c"
  by (simp add: toLowerChar_def)

lemma toLowerChar_dot: "toLowerChar c = CHR ''.'' \<longleftrightarrow> c = CHR ''.''"
proof
  assume h: "toLowerChar c = CHR ''.''"
  show "c = CHR ''.''"
  proof (cases "65 \<le> (of_char c :: nat) \<and> (of_char c :: nat) \<le> 90")
    case True
    then have "toLowerChar c = char_of ((of_char c :: nat) + 32)"
      by (simp add: toLowerChar_def)
    then have "(of_char (toLowerChar c) :: nat) = of_char c + 32"
      using True by simp
    with h have "(of_char c :: nat) = 14" by simp
    with True show ?thesis by simp
  next
    case False
    then show ?thesis using h by (auto simp: toLowerChar_def split: if_splits)
  qed
next
  assume "c = CHR ''.''"
  then show "toLowerChar c = CHR ''.''" by (simp add: toLowerChar_def)
qed

lemma ToLower_idem: "ToLower (ToLower s) = ToLower s"
  by (simp add: ToLower_def toLowerChar_idem)

lemma ToLower_Nil_iff: "ToLower s = [] \<longleftrightarrow> s = []"
  by (simp add: ToLower_def)

lemma removeLastDot_last:
  "removeLastDot s = (if s \<noteq> [] \<and> last s = CHR ''.'' then butlast s else s)"
  by (auto simp: removeLastDot_def Let_def last_conv_nth butlast_conv_take)

lemma removeLastDot_Nil: "removeLastDot [] = []"
  by (simp add: removeLastDot_def)

lemma ToLower_butlast: "ToLower (butlast s) = butlast (ToLower s)"
  by (simp add: ToLower_def map_butlast)

lemma last_ToLower_dot: "s \<noteq> [] \<Longrightarrow> last (ToLower s) = CHR ''.'' \<longleftrightarrow> last s = CHR ''.''"
  by (simp add: ToLower_def last_map toLowerChar_dot)

lemma removeLastDot_ToLower: "removeLastDot (ToLower s) = ToLower (removeLastDot s)"
  by (cases "s = []")
     (simp_all add: removeLastDot_last ToLower_butlast last_ToLower_dot ToLower_Nil_iff)

lemma suffix_two_dots:
  "suffix ''..'' x \<longleftrightarrow>
     x \<noteq> [] \<and> last x = CHR ''.'' \<and> butlast x \<noteq> [] \<and> last (butlast x) = CHR ''.''"
proof
  assume "suffix ''..'' x"
  then obtain p where "x = p @ ''..''" by (auto simp: suffix_def)
  then show "x \<noteq> [] \<and> last x = CHR ''.'' \<and> butlast x \<noteq> [] \<and> last (butlast x) = CHR ''.''"
    by (simp add: butlast_append)
next
  assume h: "x \<noteq> [] \<and> last x = CHR ''.'' \<and> butlast x \<noteq> [] \<and> last (butlast x) = CHR ''.''"
  then have a: "x = butlast x @ [CHR ''.'']" by (metis append_butlast_last_id)
  from h have b: "butlast x = butlast (butlast x) @ [CHR ''.'']"
    by (metis append_butlast_last_id)
  have "x = (butlast (butlast x) @ [CHR ''.'']) @ [CHR ''.'']" using a b by metis
  then have "x = butlast (butlast x) @ ''..''" by simp
  then show "suffix ''..'' x" by (metis suffixI)
qed

lemma removeLastDot_twice:
  "\<not> suffix ''..'' x \<Longrightarrow> removeLastDot (removeLastDot x) = removeLastDot x"
  by (auto simp: removeLastDot_last suffix_two_dots)

section \<open>Claims\<close>

text \<open>
  C4, as stated: canonicalisation (lowercase, then strip exactly one trailing dot) is
  idempotent on every string. It is not: a name that ends in two dots loses one dot at each
  application.
\<close>

theorem C4_counterexample:
  "canonicalize (canonicalize ''a..'') \<noteq> canonicalize ''a..''"
  by (simp add: canonicalize_def removeLastDot_def lower_eval)

text \<open>
  C4, amended: for every string that does not end in two dots, canonicalising twice gives
  the same result as canonicalising once.
\<close>

theorem C4_canonicalize_idempotent:
  "\<not> suffix ''..'' x \<Longrightarrow> canonicalize (canonicalize x) = canonicalize x"
  by (simp add: canonicalize_def removeLastDot_ToLower ToLower_idem removeLastDot_twice)

theorem C4_canonicalize_idempotent_witness:
  "\<not> suffix ''..'' ''WWW.Example.COM.''
   \<and> canonicalize ''WWW.Example.COM.'' = ''www.example.com''
   \<and> canonicalize (canonicalize ''WWW.Example.COM.'') = canonicalize ''WWW.Example.COM.''"
proof -
  have h: "\<not> suffix ''..'' ''WWW.Example.COM.''"
    by (simp add: suffix_two_dots)
  have v: "canonicalize ''WWW.Example.COM.'' = ''www.example.com''"
    by (simp add: canonicalize_def removeLastDot_def lower_eval)
  show ?thesis
    using h v C4_canonicalize_idempotent [OF h] by simp
qed

section \<open>Evaluation of the definitions\<close>

lemmas handler_defs = insertA_def insertAAAA_def insertCNAME_def insertPTR_def insertSRV_def
  insertNS_def insertMX_def insertTXT_def insertSPF_def

lemmas type_defs = TypeA_def TypeAAAA_def TypeCNAME_def TypePTR_def TypeSRV_def TypeNS_def
  TypeMX_def TypeTXT_def TypeSPF_def

lemmas state_defs = NewDataManagerService_def forHandlers_def insertInfrastructure_def
  Publish_def insertDomain_def checkDomain_def Duplicate_def sendNewName_def
  DupDataSourceName_def SetActive_def findNamesAndAddresses_def

lemma suffix_eval:
  "suffix xs ys \<longleftrightarrow> length xs \<le> length ys \<and> drop (length ys - length xs) ys = xs"
proof
  assume "suffix xs ys"
  then obtain p where "ys = p @ xs" by (auto simp: suffix_def)
  then show "length xs \<le> length ys \<and> drop (length ys - length xs) ys = xs" by simp
next
  assume "length xs \<le> length ys \<and> drop (length ys - length xs) ys = xs"
  then have "ys = take (length ys - length xs) ys @ xs" by (metis append_take_drop_id)
  then show "suffix xs ys" by (metis suffixI)
qed

lemmas example_eval = exampleEnv_def exampleRoots_def subdomain_to_domain_def suffix_eval

section \<open>One record of a request\<close>

text \<open>
  What the handler of iteration \<open>i\<close> finds in \<^verbatim>\<open>req.Records[i]\<close>: the lowercased
  fields when the range variable aliases the element, the fields as they arrived otherwise.
\<close>

lemma rangeBody_record:
  "i < length (Records req) \<Longrightarrow>
   Records (snd (rangeBody env (st, req) i)) ! i =
     (if RecordsArePointers env
      then (Records req ! i)\<lparr>DNSAnswer.Name := ToLower (DNSAnswer.Name (Records req ! i)),
                              DNSAnswer.Data := ToLower (DNSAnswer.Data (Records req ! i))\<rparr>
      else Records req ! i)"
  by (simp add: rangeBody_def Let_def)

lemma rangeBody_fst:
  "fst (rangeBody env (st, req) i) =
     dispatch env st (snd (rangeBody env (st, req) i)) i
       (word_of_int (DNSAnswer.Type (Records req ! i)))"
  by (simp add: rangeBody_def Let_def)

text \<open>
  C10: a record whose type, as the switch reads it (\<^verbatim>\<open>uint16(r.Type)\<close>), is none of
  A, AAAA, CNAME, PTR, SRV, NS, MX, TXT, SPF is skipped: the iteration leaves the handlers'
  calls, the bus and the filters as they were.
\<close>

theorem C10_other_type_skipped:
  assumes "word_of_int (DNSAnswer.Type (Records req ! i)) \<notin>
     {TypeA, TypeAAAA, TypeCNAME, TypePTR, TypeSRV, TypeNS, TypeMX, TypeTXT, TypeSPF}"
  shows "fst (rangeBody env (st, req) i) = st"
  using assms by (simp add: rangeBody_def dispatch_def Let_def)

theorem C10_other_type_skipped_witness:
  "fst (rangeBody (exampleEnv False)
         (NewDataManagerService,
          \<lparr>AmassRequest.Name = ''a.example.com'', Domain = ''example.com'', Address = [],
           Records = [\<lparr>DNSAnswer.Name = ''a.example.com'', Type = 6, TTL = 300,
                       Data = ''ns.example.com. admin.example.com. 1 2 3 4 5''\<rparr>],
           Tag = ''dns'', Source = ''Forward DNS''\<rparr>) 0)
   = NewDataManagerService"
  using C10_other_type_skipped [of
      "\<lparr>AmassRequest.Name = ''a.example.com'', Domain = ''example.com'', Address = [],
        Records = [\<lparr>DNSAnswer.Name = ''a.example.com'', Type = 6, TTL = 300,
                    Data = ''ns.example.com. admin.example.com. 1 2 3 4 5''\<rparr>],
        Tag = ''dns'', Source = ''Forward DNS''\<rparr>" 0 "exampleEnv False" NewDataManagerService]
  by (simp add: type_defs)

text \<open>
  C8: a record whose data is the empty string makes no handler call and publishes nothing,
  whatever its type. For TXT and SPF the two regular expressions run over the empty string,
  in which a dotted quad and a DNS name have no match.
\<close>

theorem C8_empty_data_dropped:
  assumes "i < length (Records req)"
    and "DNSAnswer.Data (Records req ! i) = []"
    and "IPv4RE env [] = []" and "AnySubdomainRegex env [] = []"
  shows "fst (rangeBody env (st, req) i) = st"
  using assms
  by (simp add: rangeBody_def dispatch_def Let_def handler_defs removeLastDot_Nil ToLower_def
      findNamesAndAddresses_def Split_def)

theorem C8_empty_data_dropped_witness:
  "fst (rangeBody (exampleEnv True)
         (NewDataManagerService,
          \<lparr>AmassRequest.Name = ''a.example.com'', Domain = ''example.com'', Address = [],
           Records = [\<lparr>DNSAnswer.Name = ''a.example.com'', Type = 16, TTL = 300, Data = []\<rparr>],
           Tag = ''dns'', Source = ''Forward DNS''\<rparr>) 0)
   = NewDataManagerService"
  using C8_empty_data_dropped [of 0
      "\<lparr>AmassRequest.Name = ''a.example.com'', Domain = ''example.com'', Address = [],
        Records = [\<lparr>DNSAnswer.Name = ''a.example.com'', Type = 16, TTL = 300, Data = []\<rparr>],
        Tag = ''dns'', Source = ''Forward DNS''\<rparr>" "exampleEnv True" NewDataManagerService]
  by (simp add: exampleEnv_def)

text \<open>
  C7: for a CNAME record, the target is the data that the request holds for the record,
  without its trailing dot. When \<^verbatim>\<open>SubdomainToDomain\<close> returns the empty string for
  that target, the iteration makes no handler call and publishes nothing.
\<close>

theorem C7_cname_without_domain:
  assumes "i < length (Records req)"
    and "word_of_int (DNSAnswer.Type (Records req ! i)) = TypeCNAME"
    and "target = removeLastDot
           (if RecordsArePointers env then ToLower (DNSAnswer.Data (Records req ! i))
            else DNSAnswer.Data (Records req ! i))"
    and "SubdomainToDomain env target = []"
  shows "fst (rangeBody env (st, req) i) = st"
  using assms
  by (simp add: rangeBody_def dispatch_def Let_def insertCNAME_def type_defs split: if_splits)

theorem C7_cname_without_domain_witness:
  "SubdomainToDomain (exampleEnv True) ''cdn.example.net'' = []
   \<and> fst (rangeBody (exampleEnv True)
         (NewDataManagerService,
          \<lparr>AmassRequest.Name = ''www.example.com'', Domain = ''example.com'', Address = [],
           Records = [\<lparr>DNSAnswer.Name = ''www.example.com'', Type = 5, TTL = 300,
                       Data = ''CDN.example.net.''\<rparr>],
           Tag = ''dns'', Source = ''Forward DNS''\<rparr>) 0)
   = NewDataManagerService"
proof -
  let ?req = "\<lparr>AmassRequest.Name = ''www.example.com'', Domain = ''example.com'', Address = [],
        Records = [\<lparr>DNSAnswer.Name = ''www.example.com'', Type = 5, TTL = 300,
                    Data = ''CDN.example.net.''\<rparr>],
        Tag = ''dns'', Source = ''Forward DNS''\<rparr>"
  have d: "SubdomainToDomain (exampleEnv True) ''cdn.example.net'' = []"
    by (simp add: example_eval)
  have "fst (rangeBody (exampleEnv True) (NewDataManagerService, ?req) 0) = NewDataManagerService"
  proof (rule C7_cname_without_domain [where target = "''cdn.example.net''"])
    show "0 < length (Records ?req)" by simp
    show "word_of_int (DNSAnswer.Type (Records ?req ! 0)) = TypeCNAME"
      by (simp add: type_defs)
    show "''cdn.example.net'' = removeLastDot
           (if RecordsArePointers (exampleEnv True)
            then ToLower (DNSAnswer.Data (Records ?req ! 0))
            else DNSAnswer.Data (Records ?req ! 0))"
      by (simp add: exampleEnv_def removeLastDot_def lower_eval)
    show "SubdomainToDomain (exampleEnv True) ''cdn.example.net'' = []" by (rule d)
  qed
  with d show ?thesis by simp
qed

end
